theory Spec2Isabelle
  imports Main "HOL-Library.Sublist" "HOL-Library.AList"
begin

section \<open>Lead email splitter: values, errors and text\<close>

text \<open>
  The program (\<^verbatim>\<open>src/app.py\<close>) reads a table, parses the text of the column
  \<^verbatim>\<open>pii.Email_Array\<close> of every row into a list of addresses
  (\<^verbatim>\<open>parse_email_array\<close>) and writes one row per address (\<^verbatim>\<open>process_csv\<close>).

  Python values are dynamically typed; the ones that occur here are the scalars a loaded
  table holds (a missing cell, which pandas represents by the float NaN, text, integers,
  booleans), \<^verbatim>\<open>None\<close>, and the lists and tuples that decoding a literal can give.
  Floats other than NaN, bytes, sets and dictionaries are not modelled. Text is a list of
  characters, one \<open>char\<close> per code point: the type \<open>char\<close> has the code points below
  256, those of ASCII and of Latin-1 (the letter \<^verbatim>\<open>e\<close> with an acute accent is
  \<open>CHR 0xE9\<close>). Code points above are not modelled; each of them is a word character
  or is none, as the modelled ones are.
\<close>

datatype py_value =
    PNone
  | PNaN
  | PBool bool
  | PInt int
  | PStr string
  | PList "py_value list"
  | PTuple "py_value list"

text \<open>The exception classes that the program can meet.\<close>

datatype py_error =
    KeyError
  | TypeError
  | ValueError
  | SyntaxError
  | MemoryError
  | RecursionError

subsection \<open>The regular expression of the fallback\<close>

text \<open>
  \<^verbatim>\<open>re.findall(r'[\w\.-]+@[\w\.-]+', text)\<close>. The class \<^verbatim>\<open>[\w\.-]\<close> holds the word
  characters, the dot and the hyphen. The pattern is a \<^verbatim>\<open>str\<close>, so \<^verbatim>\<open>\w\<close> is the
  word class of Unicode: the characters that are alphanumeric (\<^verbatim>\<open>str.isalnum\<close>) and
  the underscore. In ASCII these are the digits, the letters and the underscore; in
  Latin-1 they are joined by the ordinal indicators, the superscripts one to three, the
  micro sign, the three fractions and the accented letters (all of \<open>0xC0\<close> to \<open>0xFF\<close>
  but the multiplication and the division sign).
\<close>

definition is_ascii_word :: "char \<Rightarrow> bool" where
  "is_ascii_word c =
     (let n = (of_char c :: nat)
      in (48 \<le> n \<and> n \<le> 57) \<or> (65 \<le> n \<and> n \<le> 90) \<or> n = 95 \<or> (97 \<le> n \<and> n \<le> 122))"

definition is_word :: "char \<Rightarrow> bool" where
  "is_word c =
     (let n = (of_char c :: nat)
      in is_ascii_word c \<or> n = 170 \<or> n = 178 \<or> n = 179 \<or> n = 181 \<or> n = 185 \<or> n = 186 \<or>
         (188 \<le> n \<and> n \<le> 190) \<or> (192 \<le> n \<and> n \<le> 214) \<or> (216 \<le> n \<and> n \<le> 246) \<or>
         (248 \<le> n \<and> n \<le> 255))"

definition email_char :: "char \<Rightarrow> bool" where
  "email_char c = (is_word c \<or> c = CHR ''.'' \<or> c = CHR ''-'')"

text \<open>
  One attempt of the matcher at the start of \<open>s\<close>: the first \<^verbatim>\<open>+\<close> is greedy and takes
  the whole run of class characters; the next character must be \<^verbatim>\<open>@\<close>; the second
  \<^verbatim>\<open>+\<close> takes the whole run after it. Giving back characters of the first run cannot
  help, because the character after a shorter run is a class character and not \<^verbatim>\<open>@\<close>,
  so the greedy attempt decides. The result is the matched text and the text after it.
\<close>

definition match_here :: "string \<Rightarrow> (string \<times> string) option" where
  "match_here s =
     (let local = takeWhile email_char s; r1 = dropWhile email_char s
      in if local = [] then None
         else (case r1 of
                 [] \<Rightarrow> None
               | c # r2 \<Rightarrow>
                   if c \<noteq> CHR ''@'' then None
                   else (let dom = takeWhile email_char r2
                         in if dom = [] then None
                            else Some (local @ CHR ''@'' # dom, dropWhile email_char r2))))"

text \<open>
  \<^verbatim>\<open>findall\<close> scans from left to right: where an attempt succeeds the match is
  reported and the scan goes on behind it, where it fails the scan moves one character on.
\<close>

function findall :: "string \<Rightarrow> string list" where
  "findall [] = []"
| "findall (c # cs) =
     (case match_here (c # cs) of
        Some (m, rest) \<Rightarrow> m # findall rest
      | None \<Rightarrow> findall cs)"
  by pat_completeness auto
termination
proof (relation "measure length")
  fix c cs x m rest
  assume "match_here (c # cs) = Some x" and "(m, rest) = x"
  then have "match_here (c # cs) = Some (m, rest)" by simp
  then have "\<exists>r2. dropWhile email_char (c # cs) = CHR ''@'' # r2 \<and> rest = dropWhile email_char r2"
    by (auto simp: match_here_def Let_def split: if_splits list.splits)
  then obtain r2 where r: "dropWhile email_char (c # cs) = CHR ''@'' # r2"
    and rest: "rest = dropWhile email_char r2" by blast
  have "length rest \<le> length r2" using rest by (simp add: length_dropWhile_le)
  moreover have "length (CHR ''@'' # r2) \<le> length (c # cs)"
    using r length_dropWhile_le [of email_char "c # cs"] by simp
  ultimately show "(rest, c # cs) \<in> measure length" by simp
qed simp_all

subsection \<open>Decoding a literal: \<^verbatim>\<open>ast.literal_eval\<close>\<close>

text \<open>
  \<^verbatim>\<open>ast.literal_eval\<close> belongs to the Python library, not to the program. The program
  only depends on its outcome for a text: a value, or an exception. The functions of the
  program therefore take the decoder as a parameter \<open>dec\<close>, and what is proved for every
  \<open>dec\<close> holds whatever the library does.

  To run the program on concrete cells, \<open>literal_eval_str\<close> below computes the decoder on
  a fragment of Python's expression syntax: the brackets \<^verbatim>\<open>[ ] ( )\<close>, the comma, names
  of ASCII characters, the constants \<^verbatim>\<open>None True False\<close>, decimal integers, quoted
  strings without backslash, the attribute dot, the unary and binary minus and the
  operator \<^verbatim>\<open>@\<close>, separated by blanks, and the braces \<^verbatim>\<open>{ }\<close> of a set display
  whose conversion raises. As the library does, it first parses the whole text (a text
  that is no expression is a \<^verbatim>\<open>SyntaxError\<close>) and then converts the syntax tree from
  left to right: a tree that is no literal is a \<^verbatim>\<open>ValueError\<close>, and a set display
  with an element that cannot be hashed (a list, or a tuple that holds one) is a
  \<^verbatim>\<open>TypeError\<close>, whichever comes first. A text with anything else in it (other
  keywords and operators, floats, string prefixes and escapes, triple quotes, adjacent
  strings, calls, subscripts, a set display whose conversion returns, dictionaries,
  comments, line breaks, the ellipsis, characters beyond ASCII outside a string, nesting
  or numbers beyond the interpreter's limits) is outside the fragment; for such a text
  the function answers \<^verbatim>\<open>SyntaxError\<close>, which need not be the library's answer.
\<close>

datatype token =
    LBRACK | RBRACK | LPAR | RPAR | LBRACE | RBRACE | COMMA | AT | DOT | MINUS
  | NAME string
  | LIT py_value
  | NUMBER nat
  | STRING string

datatype lex_state =
    Idle
  | InName string
  | InNumber string
  | InString char string
  | AfterEmptyString char
  | AfterDot

definition is_digit :: "char \<Rightarrow> bool" where
  "is_digit c = (let n = (of_char c :: nat) in 48 \<le> n \<and> n \<le> 57)"

definition is_quote :: "char \<Rightarrow> bool" where
  "is_quote c = (c = CHR 0x27 \<or> c = CHR 0x22)"

definition is_blank :: "char \<Rightarrow> bool" where
  "is_blank c = (c = CHR '' '' \<or> c = CHR 0x09)"

definition py_keywords :: "string list" where
  "py_keywords =
     [''and'', ''as'', ''assert'', ''async'', ''await'', ''break'', ''class'', ''continue'',
      ''def'', ''del'', ''elif'', ''else'', ''except'', ''finally'', ''for'', ''from'',
      ''global'', ''if'', ''import'', ''in'', ''is'', ''lambda'', ''nonlocal'', ''not'',
      ''or'', ''pass'', ''raise'', ''return'', ''try'', ''while'', ''with'', ''yield'']"

text \<open>The token of a finished word: a constant, a name, or nothing for a keyword.\<close>

definition name_token :: "string \<Rightarrow> token option" where
  "name_token w =
     (if w = ''None'' then Some (LIT PNone)
      else if w = ''True'' then Some (LIT (PBool True))
      else if w = ''False'' then Some (LIT (PBool False))
      else if w \<in> set py_keywords then None
      else Some (NAME w))"

text \<open>
  The token of a finished run of digits. A decimal integer does not start with \<^verbatim>\<open>0\<close>
  unless all its digits are \<^verbatim>\<open>0\<close>.
\<close>

definition digit_value :: "char \<Rightarrow> nat" where
  "digit_value c = of_char c - 48"

definition number_token :: "string \<Rightarrow> token option" where
  "number_token ds =
     (if hd ds = CHR ''0'' \<and> \<not> list_all (\<lambda>d. d = CHR ''0'') ds then None
      else Some (NUMBER (foldl (\<lambda>n d. 10 * n + digit_value d) 0 ds)))"

text \<open>
  Reading one character between tokens: the tokens it completes and the next state, or
  nothing where the text leaves the fragment.
\<close>

definition lex_idle :: "char \<Rightarrow> (token list \<times> lex_state) option" where
  "lex_idle c =
     (if is_blank c then Some ([], Idle)
      else if c = CHR ''['' then Some ([LBRACK], Idle)
      else if c = CHR '']'' then Some ([RBRACK], Idle)
      else if c = CHR ''('' then Some ([LPAR], Idle)
      else if c = CHR '')'' then Some ([RPAR], Idle)
      else if c = CHR 0x7B then Some ([LBRACE], Idle)
      else if c = CHR 0x7D then Some ([RBRACE], Idle)
      else if c = CHR '','' then Some ([COMMA], Idle)
      else if c = CHR ''@'' then Some ([AT], Idle)
      else if c = CHR ''-'' then Some ([MINUS], Idle)
      else if c = CHR ''.'' then Some ([], AfterDot)
      else if is_quote c then Some ([], InString c [])
      else if is_digit c then Some ([], InNumber [c])
      else if is_ascii_word c then Some ([], InName [c])
      else None)"

definition emit_then :: "token option \<Rightarrow> char \<Rightarrow> (token list \<times> lex_state) option" where
  "emit_then t c =
     (case t of
        None \<Rightarrow> None
      | Some tok \<Rightarrow>
          (case lex_idle c of
             None \<Rightarrow> None
           | Some (ts, st) \<Rightarrow> Some (tok # ts, st)))"

definition lex_step :: "lex_state \<Rightarrow> char \<Rightarrow> (token list \<times> lex_state) option" where
  "lex_step st c =
     (case st of
        Idle \<Rightarrow> lex_idle c
      | InName w \<Rightarrow>
          if is_ascii_word c then Some ([], InName (w @ [c]))
          else if is_quote c then None
          else emit_then (name_token w) c
      | InNumber ds \<Rightarrow>
          if is_digit c then Some ([], InNumber (ds @ [c]))
          else if is_ascii_word c \<or> c = CHR ''.'' then None
          else emit_then (number_token ds) c
      | InString q acc \<Rightarrow>
          if c = q then Some ([STRING acc], if acc = [] then AfterEmptyString q else Idle)
          else if c = CHR 0x5C \<or> c = CHR 0x0A \<or> c = CHR 0x0D then None
          else Some ([], InString q (acc @ [c]))
      | AfterEmptyString q \<Rightarrow> if c = q then None else lex_idle c
      | AfterDot \<Rightarrow> if is_digit c \<or> c = CHR ''.'' then None else emit_then (Some DOT) c)"

definition lex_finish :: "lex_state \<Rightarrow> token list option" where
  "lex_finish st =
     (case st of
        Idle \<Rightarrow> Some []
      | InName w \<Rightarrow> map_option (\<lambda>t. [t]) (name_token w)
      | InNumber ds \<Rightarrow> map_option (\<lambda>t. [t]) (number_token ds)
      | InString q acc \<Rightarrow> None
      | AfterEmptyString q \<Rightarrow> Some []
      | AfterDot \<Rightarrow> Some [DOT])"

fun lex :: "lex_state \<Rightarrow> string \<Rightarrow> token list option" where
  "lex st [] = lex_finish st"
| "lex st (c # cs) =
     (case lex_step st c of
        None \<Rightarrow> None
      | Some (ts, st') \<Rightarrow> map_option (\<lambda>r. ts @ r) (lex st' cs))"

text \<open>
  The parser reads the tokens from left to right. Of a syntax tree it keeps what
  \<^verbatim>\<open>_convert\<close> makes of it: the value of a constant, list or tuple (\<open>Plain\<close>), a
  negated integer constant (\<open>Signed\<close>, which \<^verbatim>\<open>_convert_signed_num\<close> accepts once),
  the fact that the tree is no literal (\<open>NotLiteral\<close>: a name, an attribute, a binary
  operator, any other use of the minus sign), or the fact that building a set in it fails
  on an element that cannot be hashed (\<open>Unhashable\<close>).
\<close>

datatype conv = Plain py_value | Signed int | NotLiteral | Unhashable

datatype group = Top | InList | InParen | InBrace

text \<open>
  Where the parser stands inside the element it is reading: nothing read yet (\<open>Fresh\<close>);
  an operand is due after \<open>k\<close> unary minus signs, and a binary operator came before if
  the flag is set (\<open>Need\<close>); an operand is complete (\<open>Done\<close>); a name is due after an
  attribute dot (\<open>Dotted\<close>).
\<close>

datatype elem = Fresh | Need nat bool | Done conv | Dotted

text \<open>
  The open group: its kind, the elements completed in it, whether a comma was read in
  it, and the element being read. The stack holds the enclosing groups, each with the
  minus signs and the flag that were pending when the bracket was opened.
\<close>

type_synonym ctx = "group \<times> conv list \<times> bool \<times> elem"
type_synonym parent = "group \<times> conv list \<times> bool \<times> nat \<times> bool"
type_synonym parser_state = "ctx \<times> parent list"

definition outcome :: "conv \<Rightarrow> py_error + py_value" where
  "outcome c =
     (case c of
        Plain v \<Rightarrow> Inr v
      | Signed n \<Rightarrow> Inr (PInt n)
      | NotLiteral \<Rightarrow> Inl ValueError
      | Unhashable \<Rightarrow> Inl TypeError)"

text \<open>\<^verbatim>\<open>hash(v)\<close> returns: lists have no hash, and a tuple has one when its elements have.\<close>

fun hashable :: "py_value \<Rightarrow> bool" where
  "hashable (PList xs) = False"
| "hashable (PTuple xs) = list_all hashable xs"
| "hashable v = True"

text \<open>
  The elements of a list or a tuple are converted in their order, and the first one that
  fails decides. The elements of a set display are converted and hashed in their order.
  Where all of them can be hashed the value is a set, which is outside the fragment.
\<close>

fun convert_items :: "conv list \<Rightarrow> conv + py_value list" where
  "convert_items [] = Inr []"
| "convert_items (c # cs) =
     (case outcome c of
        Inl e \<Rightarrow> Inl (if e = TypeError then Unhashable else NotLiteral)
      | Inr v \<Rightarrow> (case convert_items cs of Inl f \<Rightarrow> Inl f | Inr vs \<Rightarrow> Inr (v # vs)))"

fun convert_set :: "conv list \<Rightarrow> conv option" where
  "convert_set [] = None"
| "convert_set (c # cs) =
     (case outcome c of
        Inl e \<Rightarrow> Some (if e = TypeError then Unhashable else NotLiteral)
      | Inr v \<Rightarrow> if hashable v then convert_set cs else Some Unhashable)"

definition apply_minus :: "nat \<Rightarrow> bool \<Rightarrow> conv \<Rightarrow> conv" where
  "apply_minus k nl c =
     (if nl then NotLiteral
      else if k = 0 then c
      else if k = 1 then (case c of Plain (PInt n) \<Rightarrow> Signed (- n) | _ \<Rightarrow> NotLiteral)
      else NotLiteral)"

text \<open>
  What a closed group converts to. Round brackets around one element without a comma
  are that element; otherwise they are a tuple. The whole text is read like the inside of
  round brackets. Braces are a set display; empty braces are a dictionary, which is
  outside the fragment.
\<close>

definition close_group :: "group \<Rightarrow> conv list \<Rightarrow> bool \<Rightarrow> conv option" where
  "close_group g items comma =
     (if g = InBrace then convert_set items
      else if g \<noteq> InList \<and> length items = 1 \<and> \<not> comma then Some (hd items)
      else (case convert_items items of
              Inl f \<Rightarrow> Some f
            | Inr vs \<Rightarrow> Some (Plain (if g = InList then PList vs else PTuple vs))))"

definition operand_class :: "token \<Rightarrow> conv option" where
  "operand_class t =
     (case t of
        NAME w \<Rightarrow> Some NotLiteral
      | LIT v \<Rightarrow> Some (Plain v)
      | NUMBER n \<Rightarrow> Some (Plain (PInt (int n)))
      | STRING s \<Rightarrow> Some (Plain (PStr s))
      | _ \<Rightarrow> None)"

definition read_operand ::
  "group \<Rightarrow> conv list \<Rightarrow> bool \<Rightarrow> parent list \<Rightarrow> nat \<Rightarrow> bool \<Rightarrow> token \<Rightarrow> parser_state option" where
  "read_operand g items comma stack k nl t =
     (case t of
        MINUS \<Rightarrow> Some ((g, items, comma, Need (Suc k) nl), stack)
      | LBRACK \<Rightarrow> Some ((InList, [], False, Fresh), (g, items, comma, k, nl) # stack)
      | LPAR \<Rightarrow> Some ((InParen, [], False, Fresh), (g, items, comma, k, nl) # stack)
      | LBRACE \<Rightarrow> Some ((InBrace, [], False, Fresh), (g, items, comma, k, nl) # stack)
      | _ \<Rightarrow>
          (case operand_class t of
             None \<Rightarrow> None
           | Some c \<Rightarrow> Some ((g, items, comma, Done (apply_minus k nl c)), stack)))"

definition close_bracket ::
  "group \<Rightarrow> group \<Rightarrow> conv list \<Rightarrow> bool \<Rightarrow> parent list \<Rightarrow> parser_state option" where
  "close_bracket want g items comma stack =
     (if g \<noteq> want then None
      else (case stack of
              [] \<Rightarrow> None
            | (pg, pitems, pcomma, k, nl) # rest \<Rightarrow>
                (case close_group g items comma of
                   None \<Rightarrow> None
                 | Some c \<Rightarrow> Some ((pg, pitems, pcomma, Done (apply_minus k nl c)), rest))))"

fun parse_step :: "parser_state \<Rightarrow> token \<Rightarrow> parser_state option" where
  "parse_step ((g, items, comma, Dotted), stack) t =
     (case t of NAME w \<Rightarrow> Some ((g, items, comma, Done NotLiteral), stack) | _ \<Rightarrow> None)"
| "parse_step ((g, items, comma, Done c), stack) t =
     (case t of
        COMMA \<Rightarrow> Some ((g, items @ [c], True, Fresh), stack)
      | AT \<Rightarrow> Some ((g, items, comma, Need 0 True), stack)
      | MINUS \<Rightarrow> Some ((g, items, comma, Need 0 True), stack)
      | DOT \<Rightarrow> Some ((g, items, comma, Dotted), stack)
      | RBRACK \<Rightarrow> close_bracket InList g (items @ [c]) comma stack
      | RPAR \<Rightarrow> close_bracket InParen g (items @ [c]) comma stack
      | RBRACE \<Rightarrow> close_bracket InBrace g (items @ [c]) comma stack
      | _ \<Rightarrow> None)"
| "parse_step ((g, items, comma, Fresh), stack) t =
     (case t of
        RBRACK \<Rightarrow> close_bracket InList g items comma stack
      | RPAR \<Rightarrow> close_bracket InParen g items comma stack
      | RBRACE \<Rightarrow> close_bracket InBrace g items comma stack
      | _ \<Rightarrow> read_operand g items comma stack 0 False t)"
| "parse_step ((g, items, comma, Need k nl), stack) t =
     read_operand g items comma stack k nl t"

fun parse_finish :: "parser_state \<Rightarrow> conv option" where
  "parse_finish ((g, items, comma, e), stack) =
     (if g \<noteq> Top \<or> stack \<noteq> [] then None
      else (case e of
              Done c \<Rightarrow> close_group Top (items @ [c]) comma
            | Fresh \<Rightarrow> if items = [] then None else close_group Top items comma
            | _ \<Rightarrow> None))"

fun parse :: "parser_state \<Rightarrow> token list \<Rightarrow> conv option" where
  "parse st [] = parse_finish st"
| "parse st (t # ts) =
     (case parse_step st t of None \<Rightarrow> None | Some st' \<Rightarrow> parse st' ts)"

definition literal_eval_str :: "string \<Rightarrow> py_error + py_value" where
  "literal_eval_str s =
     (case lex Idle s of
        None \<Rightarrow> Inl SyntaxError
      | Some ts \<Rightarrow>
          (case parse ((Top, [], False, Fresh), []) ts of
             None \<Rightarrow> Inl SyntaxError
           | Some c \<Rightarrow> outcome c))"

subsection \<open>\<^verbatim>\<open>parse_email_array\<close>\<close>

text \<open>
  \<^verbatim>\<open>pd.isna\<close> of a scalar. Of a list pandas returns an array, whose truth value numpy
  refuses with a \<^verbatim>\<open>ValueError\<close> (unless it has exactly one element, a case that is not
  modelled: a loaded table has no list in a cell).
\<close>

definition pd_isna :: "py_value \<Rightarrow> py_error + bool" where
  "pd_isna x =
     (case x of
        PNone \<Rightarrow> Inr True
      | PNaN \<Rightarrow> Inr True
      | PList xs \<Rightarrow> Inl ValueError
      | _ \<Rightarrow> Inr False)"

text \<open>
  \<^verbatim>\<open>ast.literal_eval(x)\<close>: a string is decoded by \<open>dec\<close>; any other object is taken for
  a syntax tree, is none, and is refused as a malformed node.
\<close>

definition literal_eval :: "(string \<Rightarrow> py_error + py_value) \<Rightarrow> py_value \<Rightarrow> py_error + py_value" where
  "literal_eval dec x = (case x of PStr s \<Rightarrow> dec s | _ \<Rightarrow> Inl ValueError)"

text \<open>\<^verbatim>\<open>re.findall(pattern, x)\<close>: anything but a string is a \<^verbatim>\<open>TypeError\<close>.\<close>

definition re_findall :: "py_value \<Rightarrow> py_error + py_value" where
  "re_findall x = (case x of PStr s \<Rightarrow> Inr (PList (map PStr (findall s))) | _ \<Rightarrow> Inl TypeError)"

text \<open>
  \<^verbatim>\<open>
  def parse_email_array(email_array_str):
      if pd.isna(email_array_str) or email_array_str == '[]':
          return []
      try:
          return ast.literal_eval(email_array_str)
      except (ValueError, SyntaxError):
          emails = re.findall(r'[\w\.-]+@[\w\.-]+', email_array_str)
          return emails
  \<close>
  An exception of the decoder other than the two that are caught leaves the function,
  and so does an exception raised inside the handler.
\<close>

definition parse_email_array ::
  "(string \<Rightarrow> py_error + py_value) \<Rightarrow> py_value \<Rightarrow> py_error + py_value" where
  "parse_email_array dec x =
     (case pd_isna x of
        Inl e \<Rightarrow> Inl e
      | Inr na \<Rightarrow>
          if na \<or> x = PStr ''[]'' then Inr (PList [])
          else (case literal_eval dec x of
                  Inr v \<Rightarrow> Inr v
                | Inl e \<Rightarrow>
                    if e = ValueError \<or> e = SyntaxError then re_findall x
                    else Inl e))"

section \<open>Tables\<close>

text \<open>
  A pandas \<^verbatim>\<open>DataFrame\<close>: the column names in order, and the rows in order, each row
  giving the value of every column under its name. In a table that was loaded from a file
  the column names are distinct and every row has exactly the columns of the table
  (\<open>frame_ok\<close>). Row labels are not modelled: a loaded table is labelled by position,
  \<^verbatim>\<open>explode\<close> works by position, and the export drops the labels.
\<close>

type_synonym row = "(string \<times> py_value) list"

record frame =
  columns :: "string list"
  rows :: "row list"

definition frame_ok :: "frame \<Rightarrow> bool" where
  "frame_ok df = (distinct (columns df) \<and> list_all (\<lambda>r. map fst r = columns df) (rows df))"

text \<open>Running a function that may raise over a sequence: the first exception ends the run.\<close>

fun map_result :: "('a \<Rightarrow> 'e + 'b) \<Rightarrow> 'a list \<Rightarrow> 'e + 'b list" where
  "map_result f [] = Inr []"
| "map_result f (x # xs) =
     (case f x of
        Inl e \<Rightarrow> Inl e
      | Inr y \<Rightarrow> (case map_result f xs of Inl e \<Rightarrow> Inl e | Inr ys \<Rightarrow> Inr (y # ys)))"

definition bind_result :: "'e + 'a \<Rightarrow> ('a \<Rightarrow> 'e + 'b) \<Rightarrow> 'e + 'b" where
  "bind_result m f = (case m of Inl e \<Rightarrow> Inl e | Inr x \<Rightarrow> f x)"

text \<open>\<^verbatim>\<open>df[name]\<close>: the column as a sequence, a \<^verbatim>\<open>KeyError\<close> when there is none.\<close>

definition cell :: "string \<Rightarrow> row \<Rightarrow> py_error + py_value" where
  "cell name r = (case map_of r name of None \<Rightarrow> Inl KeyError | Some v \<Rightarrow> Inr v)"

definition getitem :: "frame \<Rightarrow> string \<Rightarrow> py_error + py_value list" where
  "getitem df name =
     (if name \<in> set (columns df) then map_result (cell name) (rows df) else Inl KeyError)"

text \<open>
  \<^verbatim>\<open>df[name] = series\<close>: the values replace those of the column of that name where it
  is, and make a new last column otherwise. The series has one value per row here.
\<close>

definition setitem :: "frame \<Rightarrow> string \<Rightarrow> py_value list \<Rightarrow> frame" where
  "setitem df name series =
     \<lparr>columns = (if name \<in> set (columns df) then columns df else columns df @ [name]),
      rows = map (\<lambda>(r, v). AList.update name v r) (zip (rows df) series)\<rparr>"

text \<open>\<^verbatim>\<open>series.apply(f)\<close>.\<close>

definition series_apply :: "(py_value \<Rightarrow> py_error + 'b) \<Rightarrow> py_value list \<Rightarrow> py_error + 'b list" where
  "series_apply f series = map_result f series"

text \<open>\<^verbatim>\<open>len(x)\<close>: of a string, a list or a tuple; other values have no length.\<close>

definition py_len :: "py_value \<Rightarrow> py_error + nat" where
  "py_len x =
     (case x of
        PStr s \<Rightarrow> Inr (length s)
      | PList xs \<Rightarrow> Inr (length xs)
      | PTuple xs \<Rightarrow> Inr (length xs)
      | _ \<Rightarrow> Inl TypeError)"

text \<open>\<^verbatim>\<open>df[mask]\<close>: the rows at which the mask holds.\<close>

definition select_rows :: "frame \<Rightarrow> bool list \<Rightarrow> frame" where
  "select_rows df keep = df\<lparr>rows := map fst (filter snd (zip (rows df) keep))\<rparr>"

text \<open>
  \<^verbatim>\<open>df.explode(name)\<close>: a row whose value is a list or a tuple becomes one row per
  element, in the order of the elements; an empty list or tuple gives one row with a
  missing value; any other value, a string too, is left as it is.
\<close>

definition explode_items :: "py_value \<Rightarrow> py_value list" where
  "explode_items v =
     (case v of
        PList xs \<Rightarrow> if xs = [] then [PNaN] else xs
      | PTuple xs \<Rightarrow> if xs = [] then [PNaN] else xs
      | _ \<Rightarrow> [v])"

definition explode_row :: "string \<Rightarrow> row \<Rightarrow> py_error + row list" where
  "explode_row name r =
     bind_result (cell name r) (\<lambda>v. Inr (map (\<lambda>e. AList.update name e r) (explode_items v)))"

definition explode :: "frame \<Rightarrow> string \<Rightarrow> py_error + frame" where
  "explode df name =
     (if name \<in> set (columns df)
      then bind_result (map_result (explode_row name) (rows df))
             (\<lambda>rss. Inr (df\<lparr>rows := concat rss\<rparr>))
      else Inl KeyError)"

text \<open>\<^verbatim>\<open>df.rename(columns={old: new})\<close>.\<close>

definition rename_key :: "string \<Rightarrow> string \<Rightarrow> string \<Rightarrow> string" where
  "rename_key old new k = (if k = old then new else k)"

definition rename_columns :: "frame \<Rightarrow> string \<Rightarrow> string \<Rightarrow> frame" where
  "rename_columns df old new =
     \<lparr>columns = map (rename_key old new) (columns df),
      rows = map (map (\<lambda>(k, v). (rename_key old new k, v))) (rows df)\<rparr>"

section \<open>\<^verbatim>\<open>process_csv\<close>\<close>

record stats =
  rows_before :: nat
  rows_after :: nat
  emails_found :: nat

text \<open>
  \<^verbatim>\<open>
  def process_csv(df):
      df_copy = df.copy()
      df_copy['parsed_emails'] = df_copy['pii.Email_Array'].apply(parse_email_array)
      total_emails_before = df_copy['parsed_emails'].apply(len).sum()
      total_rows_before = len(df_copy)
      df_with_emails = df_copy[df_copy['parsed_emails'].apply(len) > 0].copy()
      df_exploded = df_with_emails.explode('parsed_emails')
      df_exploded = df_exploded.rename(columns={'parsed_emails': 'email'})
      total_rows_after = len(df_exploded)
      return df_exploded, {'rows_before': total_rows_before,
                           'rows_after': total_rows_after,
                           'emails_found': total_emails_before}
  \<close>
  As a function of the value of the table. An exception raised on the way is the result.
\<close>

definition process_csv :: "(string \<Rightarrow> py_error + py_value) \<Rightarrow> frame \<Rightarrow> py_error + frame \<times> stats" where
  "process_csv dec df =
     (let df_copy = df in
      bind_result (getitem df_copy ''pii.Email_Array'') (\<lambda>email_array.
      bind_result (series_apply (parse_email_array dec) email_array) (\<lambda>parsed.
      let df_copy = setitem df_copy ''parsed_emails'' parsed in
      bind_result (getitem df_copy ''parsed_emails'') (\<lambda>parsed_emails.
      bind_result (series_apply py_len parsed_emails) (\<lambda>lens.
      let total_emails_before = sum_list lens;
          total_rows_before = length (rows df_copy) in
      bind_result (getitem df_copy ''parsed_emails'') (\<lambda>parsed_emails.
      bind_result (series_apply py_len parsed_emails) (\<lambda>lens.
      let df_with_emails = select_rows df_copy (map (\<lambda>n. n > 0) lens) in
      bind_result (explode df_with_emails ''parsed_emails'') (\<lambda>df_exploded.
      let df_exploded = rename_columns df_exploded ''parsed_emails'' ''email'';
          total_rows_after = length (rows df_exploded) in
      Inr (df_exploded,
           \<lparr>rows_before = total_rows_before,
            rows_after = total_rows_after,
            emails_found = total_emails_before\<rparr>)))))))))"

subsection \<open>The same function on a store of tables\<close>

text \<open>
  A table is a mutable object and \<^verbatim>\<open>df\<close> is a reference to it. Here the tables live
  in a store, a reference is a position in it, and the function returns the store it
  leaves behind. \<^verbatim>\<open>df.copy()\<close>, the selection of rows, \<^verbatim>\<open>explode\<close> and
  \<^verbatim>\<open>rename\<close> each make a new table; the assignment of the column
  \<^verbatim>\<open>parsed_emails\<close> changes the table it is applied to in place.
\<close>

type_synonym addr = nat
type_synonym store = "frame list"

definition alloc :: "store \<Rightarrow> frame \<Rightarrow> addr \<times> store" where
  "alloc h f = (length h, h @ [f])"

definition raise_or ::
  "py_error + 'a \<Rightarrow> store \<Rightarrow> ('a \<Rightarrow> (py_error + 'b) \<times> store) \<Rightarrow> (py_error + 'b) \<times> store" where
  "raise_or m h f = (case m of Inl e \<Rightarrow> (Inl e, h) | Inr x \<Rightarrow> f x)"

definition process_csv_st ::
  "(string \<Rightarrow> py_error + py_value) \<Rightarrow> store \<Rightarrow> addr \<Rightarrow> (py_error + addr \<times> stats) \<times> store" where
  "process_csv_st dec h df =
     (let (df_copy, h) = alloc h (h ! df) in
      raise_or (getitem (h ! df_copy) ''pii.Email_Array'') h (\<lambda>email_array.
      raise_or (series_apply (parse_email_array dec) email_array) h (\<lambda>parsed.
      let h = h[df_copy := setitem (h ! df_copy) ''parsed_emails'' parsed] in
      raise_or (getitem (h ! df_copy) ''parsed_emails'') h (\<lambda>parsed_emails.
      raise_or (series_apply py_len parsed_emails) h (\<lambda>lens.
      let total_emails_before = sum_list lens;
          total_rows_before = length (rows (h ! df_copy)) in
      raise_or (getitem (h ! df_copy) ''parsed_emails'') h (\<lambda>parsed_emails.
      raise_or (series_apply py_len parsed_emails) h (\<lambda>lens.
      let (selected, h) = alloc h (select_rows (h ! df_copy) (map (\<lambda>n. n > 0) lens));
          (df_with_emails, h) = alloc h (h ! selected) in
      raise_or (explode (h ! df_with_emails) ''parsed_emails'') h (\<lambda>exploded.
      let (df_exploded, h) = alloc h exploded;
          (df_exploded, h) = alloc h (rename_columns (h ! df_exploded) ''parsed_emails'' ''email'');
          total_rows_after = length (rows (h ! df_exploded)) in
      (Inr (df_exploded,
            \<lparr>rows_before = total_rows_before,
             rows_after = total_rows_after,
             emails_found = total_emails_before\<rparr>), h)))))))))"

section \<open>\<^verbatim>\<open>main\<close>\<close>

text \<open>
  The page. The upload is modelled by the table that \<^verbatim>\<open>pd.read_csv\<close> made of it, or
  nothing as long as no file was chosen. The result is what the page shows, in order, and
  the exception that ended the run, if any. The texts of a message are kept where a claim
  reads them; the success message is kept as the three numbers it is built from;
  \<^verbatim>\<open>df.head()\<close> is the first five rows. The closing \<^verbatim>\<open>View Data Details\<close> part, which
  only tabulates how many leads have how many addresses, is not modelled.
\<close>

datatype ui =
    Title string
  | Write_intro
  | Subheader string
  | Dataframe frame
  | Error_box string
  | Success_box stats
  | Download_button frame

definition frame_head :: "frame \<Rightarrow> frame" where
  "frame_head df = df\<lparr>rows := take 5 (rows df)\<rparr>"

definition missing_column_text :: string where
  "missing_column_text =
     ''The CSV file must contain a column named '' @ [CHR 0x27] @ ''pii.Email_Array''
       @ [CHR 0x27] @ '' with email addresses.''"

definition main :: "(string \<Rightarrow> py_error + py_value) \<Rightarrow> frame option \<Rightarrow> ui list \<times> py_error option" where
  "main dec uploaded_file =
     (let page = [Title ''Lead Email Splitter'', Write_intro] in
      case uploaded_file of
        None \<Rightarrow> (page, None)
      | Some df \<Rightarrow>
          (let page = page @ [Subheader ''Original Data (First 5 Rows)'', Dataframe (frame_head df)] in
           if ''pii.Email_Array'' \<notin> set (columns df)
           then (page @ [Error_box missing_column_text], None)
           else (case process_csv dec df of
                   Inl e \<Rightarrow> (page, Some e)
                 | Inr (df_processed, stats) \<Rightarrow>
                     (page @ [Success_box stats,
                              Subheader ''Processed Data (First 5 Rows)'',
                              Dataframe (frame_head df_processed),
                              Download_button df_processed], None))))"

section \<open>Notions used in the statements\<close>

text \<open>
  The parsed lists of a table: what \<^verbatim>\<open>df['pii.Email_Array'].apply(parse_email_array)\<close>
  gives, one entry per source row.
\<close>

definition parsed_emails :: "(string \<Rightarrow> py_error + py_value) \<Rightarrow> frame \<Rightarrow> py_error + py_value list" where
  "parsed_emails dec df =
     bind_result (getitem df ''pii.Email_Array'') (series_apply (parse_email_array dec))"

text \<open>
  What one parsed entry contributes to the output: nothing when its length is zero,
  its elements in their order when it is a list or a tuple, itself otherwise.
\<close>

definition fan_out :: "py_value \<Rightarrow> py_value list" where
  "fan_out p = (case py_len p of Inr n \<Rightarrow> if n > 0 then explode_items p else [] | Inl e \<Rightarrow> [])"

text \<open>
  The output row made of the source row \<open>r\<close> for the address \<open>e\<close>, and the columns of
  the output: the address is stored under \<^verbatim>\<open>parsed_emails\<close>, and that name is then
  changed to \<^verbatim>\<open>email\<close>.
\<close>

definition expanded_row :: "row \<Rightarrow> py_value \<Rightarrow> row" where
  "expanded_row r e =
     map (\<lambda>(k, v). (rename_key ''parsed_emails'' ''email'' k, v))
       (AList.update ''parsed_emails'' e r)"

definition expanded_columns :: "frame \<Rightarrow> string list" where
  "expanded_columns df =
     map (rename_key ''parsed_emails'' ''email'')
       (if ''parsed_emails'' \<in> set (columns df) then columns df
        else columns df @ [''parsed_emails''])"

subsection \<open>The matches of the pattern in a text\<close>










subsection \<open>Example tables\<close>

definition quoted :: "string \<Rightarrow> string" where
  "quoted s = CHR 0x27 # s @ [CHR 0x27]"

definition leads_example :: frame where
  "leads_example =
     \<lparr>columns = [''id'', ''pii.Email_Array''],
      rows = [[(''id'', PInt 1), (''pii.Email_Array'', PStr ''[a@x.com, b@x.com]'')],
              [(''id'', PInt 2), (''pii.Email_Array'', PStr ''[]'')],
              [(''id'', PInt 3), (''pii.Email_Array'', PStr ''[c@y.com]'')]]\<rparr>"

definition quoted_example :: frame where
  "quoted_example =
     \<lparr>columns = [''pii.Email_Array''],
      rows = [[(''pii.Email_Array'', PStr (quoted ''a@b.com''))]]\<rparr>"

definition no_array_example :: frame where
  "no_array_example = \<lparr>columns = [''id''], rows = [[(''id'', PInt 1)]]\<rparr>"

definition single_example :: frame where
  "single_example =
     \<lparr>columns = [''id'', ''pii.Email_Array''],
      rows = [[(''id'', PInt 1), (''pii.Email_Array'', PStr ''[a@x.com]'')],
              [(''id'', PInt 2), (''pii.Email_Array'', PStr ''[c@y.com]'')]]\<rparr>"



section \<open>Properties of the table operations\<close>

lemma bind_result_Inr_iff: "bind_result m f = Inr y \<longleftrightarrow> (\<exists>x. m = Inr x \<and> f x = Inr y)"
  by (cases m) (simp_all add: bind_result_def)

lemma map_result_Inr_iff: "map_result f xs = Inr ys \<longleftrightarrow> map f xs = map Inr ys"
proof (induction xs arbitrary: ys)
  case Nil
  then show ?case by auto
next
  case (Cons x xs)
  show ?case
  proof (cases "f x")
    case (Inl e)
    then show ?thesis by (cases ys) auto
  next
    case (Inr y)
    then show ?thesis using Cons.IH
      by (cases ys; cases "map_result f xs") auto
  qed
qed

lemma map_result_length: "map_result f xs = Inr ys \<Longrightarrow> length ys = length xs"
  by (metis length_map map_result_Inr_iff)

lemma cell_update: "cell name (AList.update name v r) = Inr v"
  by (simp add: cell_def update_conv')

lemma map_cell_update_zip:
  "length rs = length series \<Longrightarrow>
   map (cell name \<circ> (\<lambda>(r, v). AList.update name v r)) (zip rs series) = map Inr series"
  by (induction rs series rule: list_induct2) (simp_all add: cell_update)

lemma getitem_length: "getitem df name = Inr col \<Longrightarrow> length col = length (rows df)"
  by (auto simp: getitem_def map_result_length split: if_splits)

lemma getitem_setitem:
  "length series = length (rows df) \<Longrightarrow> getitem (setitem df name series) name = Inr series"
  by (simp add: getitem_def setitem_def map_result_Inr_iff map_cell_update_zip)

lemma rows_setitem:
  "rows (setitem df name series) = map (\<lambda>(r, v). AList.update name v r) (zip (rows df) series)"
  by (simp add: setitem_def)

lemma explode_row_update:
  "explode_row name (AList.update name v r) =
     Inr (map (\<lambda>e. AList.update name e r) (explode_items v))"
  by (simp add: explode_row_def cell_update bind_result_def)

text \<open>
  Exploding the rows that were kept: every kept row has a value in the new column, so
  no row raises, and the rows come out in the order of the source rows.
\<close>

lemma explode_selected:
  assumes "length rs = length parsed" "map py_len parsed = map Inr lens"
  shows "map_result (explode_row name)
           (map fst (filter snd (zip (map (\<lambda>(r, v). AList.update name v r) (zip rs parsed))
                                     (map (\<lambda>n. n > 0) lens))))
         = Inr (map (\<lambda>(r, p). map (\<lambda>e. AList.update name e r) (explode_items p))
                  (filter (\<lambda>(r, p). py_len p \<noteq> Inr 0) (zip rs parsed)))"
  using assms
proof (induction rs parsed arbitrary: lens rule: list_induct2)
  case Nil
  then show ?case by simp
next
  case (Cons r rs p ps)
  then obtain n ns where lens: "lens = n # ns" "py_len p = Inr n" "map py_len ps = map Inr ns"
    by (cases lens) auto
  show ?case using Cons.IH [OF lens(3)] lens(1,2)
    by (simp add: explode_row_update)
qed

lemma fan_out_filter:
  "map py_len parsed = map Inr lens \<Longrightarrow> length rs = length parsed \<Longrightarrow>
   concat (map (\<lambda>(r, p). map (f r) (explode_items p))
            (filter (\<lambda>(r, p). py_len p \<noteq> Inr 0) (zip rs parsed)))
   = concat (map (\<lambda>(r, p). map (f r) (fan_out p)) (zip rs parsed))"
proof (induction rs parsed arbitrary: lens rule: list_induct2')
  case (4 r rs p ps)
  then obtain n ns where "lens = n # ns" "py_len p = Inr n" "map py_len ps = map Inr ns"
    by (cases lens) auto
  with 4 show ?case by (auto simp: fan_out_def)
qed simp_all

section \<open>What \<^verbatim>\<open>process_csv\<close> returns\<close>

text \<open>
  When \<^verbatim>\<open>process_csv\<close> returns, the column was there, every cell was parsed and every
  parsed entry had a length; the table and the counts are then the following.
\<close>

lemma process_csv_Inr:
  assumes "process_csv dec df = Inr (out, st)"
  shows "\<exists>parsed lens.
           parsed_emails dec df = Inr parsed \<and> length parsed = length (rows df) \<and>
           map_result py_len parsed = Inr lens \<and>
           columns out = expanded_columns df \<and>
           rows out = concat (map (\<lambda>(r, p). map (expanded_row r) (fan_out p)) (zip (rows df) parsed)) \<and>
           st = \<lparr>rows_before = length (rows df), rows_after = length (rows out),
                 emails_found = sum_list lens\<rparr>"
proof -
  from assms obtain col parsed where
    col: "getitem df ''pii.Email_Array'' = Inr col" and
    parsed: "map_result (parse_email_array dec) col = Inr parsed"
    by (auto simp: process_csv_def Let_def bind_result_Inr_iff series_apply_def)
  have len: "length parsed = length (rows df)"
    using col parsed by (simp add: getitem_length map_result_length)
  have get: "getitem (setitem df ''parsed_emails'' parsed) ''parsed_emails'' = Inr parsed"
    using len by (rule getitem_setitem)
  from assms col parsed get obtain lens ex where
    lens: "map_result py_len parsed = Inr lens" and
    ex: "explode (select_rows (setitem df ''parsed_emails'' parsed) (map (\<lambda>n. n > 0) lens))
           ''parsed_emails'' = Inr ex" and
    out: "out = rename_columns ex ''parsed_emails'' ''email''" and
    st: "st = \<lparr>rows_before = length (rows (setitem df ''parsed_emails'' parsed)),
               rows_after = length (rows (rename_columns ex ''parsed_emails'' ''email'')),
               emails_found = sum_list lens\<rparr>"
    by (auto simp: process_csv_def Let_def bind_result_Inr_iff series_apply_def)
  have lens': "map py_len parsed = map Inr lens"
    using lens by (simp add: map_result_Inr_iff)
  have rows_ex: "rows ex = concat (map (\<lambda>(r, p). map (\<lambda>e. AList.update ''parsed_emails'' e r) (fan_out p))
                               (zip (rows df) parsed))"
    and cols_ex: "columns ex = columns (setitem df ''parsed_emails'' parsed)"
    using ex explode_selected [OF len [symmetric] lens', of "''parsed_emails''"]
      fan_out_filter [OF lens' len [symmetric], of "\<lambda>r e. AList.update ''parsed_emails'' e r"]
    by (auto simp: explode_def select_rows_def rows_setitem bind_result_Inr_iff split: if_splits)
  have "rows out = concat (map (\<lambda>(r, p). map (expanded_row r) (fan_out p)) (zip (rows df) parsed))"
    unfolding out rename_columns_def using rows_ex
    by (simp add: map_concat expanded_row_def [abs_def] comp_def case_prod_unfold)
  moreover have "columns out = expanded_columns df"
    unfolding out rename_columns_def using cols_ex by (simp add: expanded_columns_def setitem_def)
  moreover have "length (rows (setitem df ''parsed_emails'' parsed)) = length (rows df)"
    using len by (simp add: rows_setitem)
  moreover have "parsed_emails dec df = Inr parsed"
    using col parsed by (simp add: parsed_emails_def bind_result_def series_apply_def)
  ultimately show ?thesis using len lens st out by auto
qed

text \<open>Conversely, under these conditions it does return.\<close>

lemma process_csv_returns:
  assumes "parsed_emails dec df = Inr parsed" "map_result py_len parsed = Inr lens"
  shows "\<exists>out st. process_csv dec df = Inr (out, st)"
proof -
  from assms(1) obtain col where
    col: "getitem df ''pii.Email_Array'' = Inr col" and
    parsed: "map_result (parse_email_array dec) col = Inr parsed"
    by (auto simp: parsed_emails_def bind_result_Inr_iff series_apply_def)
  have len: "length parsed = length (rows df)"
    using col parsed by (simp add: getitem_length map_result_length)
  have get: "getitem (setitem df ''parsed_emails'' parsed) ''parsed_emails'' = Inr parsed"
    using len by (rule getitem_setitem)
  have lens': "map py_len parsed = map Inr lens"
    using assms(2) by (simp add: map_result_Inr_iff)
  have "\<exists>ex. explode (select_rows (setitem df ''parsed_emails'' parsed) (map (\<lambda>n. n > 0) lens))
           ''parsed_emails'' = Inr ex"
    using explode_selected [OF len [symmetric] lens', of "''parsed_emails''"]
    by (simp add: explode_def select_rows_def rows_setitem bind_result_def setitem_def)
  then show ?thesis
    using col parsed get assms(2)
    by (auto simp: process_csv_def Let_def bind_result_def series_apply_def)
qed

lemma leads_example_parsed:
  "parsed_emails literal_eval_str leads_example =
     Inr [PList [PStr ''a@x.com'', PStr ''b@x.com''], PList [], PList [PStr ''c@y.com'']]"
  by code_simp

section \<open>The claims\<close>

text \<open>
  C7. \<^verbatim>\<open>process_csv\<close> counts \<^verbatim>\<open>rows_before\<close> as the number of all source rows and
  \<^verbatim>\<open>emails_found\<close> as the sum of the lengths of the parsed entries of all source rows:
  both are taken of the whole input, before the rows with an empty entry are dropped.
  Whenever every cell of the column is parsed and every parsed entry has a length, the
  function returns, and with these counts.
\<close>

theorem counts_before_filtering:
  assumes "parsed_emails dec df = Inr parsed" and "map_result py_len parsed = Inr lens"
  shows "\<exists>out st. process_csv dec df = Inr (out, st) \<and>
           length parsed = length (rows df) \<and>
           rows_before st = length (rows df) \<and>
           emails_found st = sum_list lens"
proof -
  obtain out st where r: "process_csv dec df = Inr (out, st)"
    using process_csv_returns [OF assms] by blast
  from process_csv_Inr [OF r] assms show ?thesis
    using r by auto
qed

text \<open>
  On the example of three leads, the second of which has no address, the counts are
  three rows and three addresses, although only two rows are kept for the expansion.
\<close>

theorem counts_before_filtering_witness:
  "parsed_emails literal_eval_str leads_example =
     Inr [PList [PStr ''a@x.com'', PStr ''b@x.com''], PList [], PList [PStr ''c@y.com'']] \<and>
   map_result py_len [PList [PStr ''a@x.com'', PStr ''b@x.com''], PList [], PList [PStr ''c@y.com'']]
     = Inr [2, 0, 1] \<and>
   (\<exists>out st. process_csv literal_eval_str leads_example = Inr (out, st) \<and>
      rows_before st = 3 \<and> emails_found st = 3)"
proof -
  note p = leads_example_parsed
  have l: "map_result py_len [PList [PStr ''a@x.com'', PStr ''b@x.com''], PList [], PList [PStr ''c@y.com'']]
     = Inr [2, 0, 1]"
    by (simp add: py_len_def)
  have "length (rows leads_example) = 3" by (simp add: leads_example_def)
  with counts_before_filtering [OF p l] p l show ?thesis by simp
qed

text \<open>
  C8. The rows of the expanded table follow the order of the source rows; the rows made
  of one source row are next to each other and follow the order of the elements of that
  row's parsed entry: the output is the concatenation, over the source rows in order, of
  one row per element of \<open>fan_out\<close> of the entry, and \<open>fan_out\<close> of a list is the list
  itself (\<open>fan_out_PList\<close>).
\<close>

lemma fan_out_PList: "fan_out (PList es) = es"
  by (cases es) (simp_all add: fan_out_def py_len_def explode_items_def)

lemma fan_out_PTuple: "fan_out (PTuple es) = es"
  by (cases es) (simp_all add: fan_out_def py_len_def explode_items_def)

theorem expansion_order:
  assumes "parsed_emails dec df = Inr parsed" and "map_result py_len parsed = Inr lens"
  shows "\<exists>out st. process_csv dec df = Inr (out, st) \<and>
           rows out = concat (map (\<lambda>(r, p). map (expanded_row r) (fan_out p)) (zip (rows df) parsed))"
proof -
  obtain out st where r: "process_csv dec df = Inr (out, st)"
    using process_csv_returns [OF assms] by blast
  from process_csv_Inr [OF r] assms show ?thesis
    using r by auto
qed

theorem expansion_order_witness:
  "parsed_emails literal_eval_str leads_example =
     Inr [PList [PStr ''a@x.com'', PStr ''b@x.com''], PList [], PList [PStr ''c@y.com'']] \<and>
   map_result py_len [PList [PStr ''a@x.com'', PStr ''b@x.com''], PList [], PList [PStr ''c@y.com'']]
     = Inr [2, 0, 1] \<and>
   (\<exists>out st. process_csv literal_eval_str leads_example = Inr (out, st) \<and>
      rows out =
        [[(''id'', PInt 1), (''pii.Email_Array'', PStr ''[a@x.com, b@x.com]''), (''email'', PStr ''a@x.com'')],
         [(''id'', PInt 1), (''pii.Email_Array'', PStr ''[a@x.com, b@x.com]''), (''email'', PStr ''b@x.com'')],
         [(''id'', PInt 3), (''pii.Email_Array'', PStr ''[c@y.com]''), (''email'', PStr ''c@y.com'')]])"
proof -
  note p = leads_example_parsed
  have l: "map_result py_len [PList [PStr ''a@x.com'', PStr ''b@x.com''], PList [], PList [PStr ''c@y.com'']]
     = Inr [2, 0, 1]"
    by (simp add: py_len_def)
  show ?thesis
    using expansion_order [OF p l] p l
    by (simp add: leads_example_def fan_out_PList expanded_row_def rename_key_def)
qed

text \<open>
  C5. When the table has no column \<^verbatim>\<open>pii.Email_Array\<close>, the page shows the error
  message after the original table and nothing else: \<^verbatim>\<open>process_csv\<close> is not called,
  no processed table and no download are shown, and no exception is raised. Called on
  such a table directly, \<^verbatim>\<open>process_csv\<close> raises \<^verbatim>\<open>KeyError\<close> and returns no table.
\<close>

theorem missing_column_reported:
  assumes "''pii.Email_Array'' \<notin> set (columns df)"
  shows "process_csv dec df = Inl KeyError \<and>
         main dec (Some df) =
           ([Title ''Lead Email Splitter'', Write_intro,
             Subheader ''Original Data (First 5 Rows)'', Dataframe (frame_head df),
             Error_box missing_column_text], None)"
  using assms by (simp add: process_csv_def getitem_def bind_result_def main_def Let_def)

theorem missing_column_reported_witness:
  "''pii.Email_Array'' \<notin> set (columns no_array_example) \<and>
   process_csv literal_eval_str no_array_example = Inl KeyError \<and>
   main literal_eval_str (Some no_array_example) =
     ([Title ''Lead Email Splitter'', Write_intro,
       Subheader ''Original Data (First 5 Rows)'', Dataframe (frame_head no_array_example),
       Error_box missing_column_text], None)"
proof -
  have h: "''pii.Email_Array'' \<notin> set (columns no_array_example)"
    by (simp add: no_array_example_def)
  show ?thesis using h missing_column_reported [OF h, of literal_eval_str] by simp
qed

text \<open>
  C1. The claim is that \<^verbatim>\<open>rows_after\<close> always equals \<^verbatim>\<open>emails_found\<close>. On a table
  whose only cell holds one address between single quotes the decoder returns a string,
  not a list: \<^verbatim>\<open>len\<close> counts its seven characters as addresses found, while
  \<^verbatim>\<open>explode\<close> keeps the string as one row.
\<close>

theorem quoted_cell_counts_characters:
  "process_csv literal_eval_str quoted_example =
     Inr (\<lparr>columns = [''pii.Email_Array'', ''email''],
           rows = [[(''pii.Email_Array'', PStr (quoted ''a@b.com'')), (''email'', PStr ''a@b.com'')]]\<rparr>,
          \<lparr>rows_before = 1, rows_after = 1, emails_found = 7\<rparr>)"
  by code_simp

text \<open>
  C4. The claim is that the strict path accepts list literals only. The function returns
  whatever the decoder returns: the string of a quoted string, the number of a number,
  the tuple of a tuple.
\<close>

theorem strict_path_returns_non_lists:
  "parse_email_array literal_eval_str (PStr (quoted ''a@b.com'')) = Inr (PStr ''a@b.com'') \<and>
   parse_email_array literal_eval_str (PStr ''5'') = Inr (PInt 5) \<and>
   parse_email_array literal_eval_str (PStr (''('' @ quoted ''a@b.com'' @ '', '' @ quoted ''c@d.com'' @ '')''))
     = Inr (PTuple [PStr ''a@b.com'', PStr ''c@d.com''])"
  by code_simp

text \<open>Rows and columns of the output when the table has no column \<^verbatim>\<open>parsed_emails\<close>.\<close>

lemma update_fresh: "k \<notin> fst ` set al \<Longrightarrow> AList.update k v al = al @ [(k, v)]"
  by (induction al) auto

lemma rename_fresh:
  "k \<notin> fst ` set al \<Longrightarrow> map (\<lambda>(k', v). (rename_key k new k', v)) al = al"
  by (induction al) (auto simp: rename_key_def)

lemma expanded_row_append:
  assumes "''parsed_emails'' \<notin> fst ` set r"
  shows "expanded_row r e = r @ [(''email'', e)]"
  using assms by (simp add: expanded_row_def update_fresh rename_fresh) (simp add: rename_key_def)

lemma rename_key_fresh: "k \<notin> set xs \<Longrightarrow> map (rename_key k new) xs = xs"
  by (induction xs) (auto simp: rename_key_def)

lemma expanded_columns_append:
  assumes "''parsed_emails'' \<notin> set (columns df)"
  shows "expanded_columns df = columns df @ [''email'']"
  using assms by (simp add: expanded_columns_def rename_key_fresh) (simp add: rename_key_def)

lemma concat_map_cong_zip:
  assumes "\<And>r. r \<in> set rs \<Longrightarrow> f r = g r"
  shows "concat (map (\<lambda>(r, p). map (f r) (h p)) (zip rs ps))
       = concat (map (\<lambda>(r, p). map (g r) (h p)) (zip rs ps))"
proof -
  have "map (\<lambda>(r, p). map (f r) (h p)) (zip rs ps) = map (\<lambda>(r, p). map (g r) (h p)) (zip rs ps)"
    by (rule map_cong) (auto dest: set_zip_leftD simp: assms)
  then show ?thesis by (simp only:)
qed

lemma concat_singletons:
  "concat (map (\<lambda>(r, p). map (f r) (fan_out p)) (zip rs (map (\<lambda>e. PList [e]) es)))
   = map (\<lambda>(r, e). f r e) (zip rs es)"
proof (induction rs arbitrary: es)
  case Nil
  then show ?case by simp
next
  case (Cons r rs)
  then show ?case by (cases es) (simp_all add: fan_out_PList)
qed

text \<open>
  C2, as amended. The output has all the columns of the input, the column
  \<^verbatim>\<open>pii.Email_Array\<close> too, followed by one new last column \<^verbatim>\<open>email\<close>; every output
  row is its source row, unchanged, with one address added under \<^verbatim>\<open>email\<close>. This holds
  for a loaded table that has no column named \<^verbatim>\<open>parsed_emails\<close>. In particular, when
  every cell parses to a list of exactly one address, the output has as many rows as the
  input, and each is its source row with that address added.
\<close>

theorem email_column_appended:
  assumes ok: "frame_ok df"
    and fresh: "''parsed_emails'' \<notin> set (columns df)"
    and parsed: "parsed_emails dec df = Inr parsed"
    and lens: "map_result py_len parsed = Inr lens"
  shows "\<exists>out st. process_csv dec df = Inr (out, st) \<and>
           columns out = columns df @ [''email''] \<and>
           rows out = concat (map (\<lambda>(r, p). map (\<lambda>e. r @ [(''email'', e)]) (fan_out p))
                               (zip (rows df) parsed)) \<and>
           (\<forall>emails. parsed = map (\<lambda>e. PList [e]) emails \<longrightarrow>
              length (rows out) = length (rows df) \<and>
              rows out = map (\<lambda>(r, e). r @ [(''email'', e)]) (zip (rows df) emails))"
proof -
  obtain out st where r: "process_csv dec df = Inr (out, st)"
    using process_csv_returns [OF parsed lens] by blast
  from process_csv_Inr [OF r] parsed have
    cols: "columns out = expanded_columns df" and
    len: "length parsed = length (rows df)" and
    rws: "rows out = concat (map (\<lambda>(r, p). map (expanded_row r) (fan_out p)) (zip (rows df) parsed))"
    by auto
  have keys: "\<And>r. r \<in> set (rows df) \<Longrightarrow> ''parsed_emails'' \<notin> fst ` set r"
  proof -
    fix r assume "r \<in> set (rows df)"
    then have "map fst r = columns df" using ok by (auto simp: frame_ok_def list_all_iff)
    then have "fst ` set r = set (columns df)" by (metis set_map)
    then show "''parsed_emails'' \<notin> fst ` set r" using fresh by simp
  qed
  have rws': "rows out = concat (map (\<lambda>(r, p). map (\<lambda>e. r @ [(''email'', e)]) (fan_out p))
                               (zip (rows df) parsed))"
    unfolding rws
    by (rule concat_map_cong_zip) (auto simp: expanded_row_append keys)
  have single: "\<forall>emails. parsed = map (\<lambda>e. PList [e]) emails \<longrightarrow>
              length (rows out) = length (rows df) \<and>
              rows out = map (\<lambda>(r, e). r @ [(''email'', e)]) (zip (rows df) emails)"
  proof (intro allI impI)
    fix emails assume e: "parsed = map (\<lambda>e. PList [e]) emails"
    have "rows out = map (\<lambda>(r, e). r @ [(''email'', e)]) (zip (rows df) emails)"
      unfolding rws' e by (rule concat_singletons)
    moreover have "length emails = length (rows df)" using len e by simp
    ultimately show "length (rows out) = length (rows df) \<and>
              rows out = map (\<lambda>(r, e). r @ [(''email'', e)]) (zip (rows df) emails)" by simp
  qed
  show ?thesis using r cols rws' single expanded_columns_append [OF fresh] by auto
qed

lemma single_example_parsed:
  "parsed_emails literal_eval_str single_example =
     Inr (map (\<lambda>e. PList [e]) [PStr ''a@x.com'', PStr ''c@y.com''])"
  by code_simp

theorem email_column_appended_witness:
  "frame_ok single_example \<and> ''parsed_emails'' \<notin> set (columns single_example) \<and>
   parsed_emails literal_eval_str single_example =
     Inr (map (\<lambda>e. PList [e]) [PStr ''a@x.com'', PStr ''c@y.com'']) \<and>
   map_result py_len (map (\<lambda>e. PList [e]) [PStr ''a@x.com'', PStr ''c@y.com'']) = Inr [1, 1] \<and>
   (\<exists>out st. process_csv literal_eval_str single_example = Inr (out, st) \<and>
      columns out = [''id'', ''pii.Email_Array'', ''email''] \<and>
      length (rows out) = 2 \<and>
      rows out =
        [[(''id'', PInt 1), (''pii.Email_Array'', PStr ''[a@x.com]''), (''email'', PStr ''a@x.com'')],
         [(''id'', PInt 2), (''pii.Email_Array'', PStr ''[c@y.com]''), (''email'', PStr ''c@y.com'')]])"
proof -
  have ok: "frame_ok single_example" by (simp add: frame_ok_def single_example_def)
  have fresh: "''parsed_emails'' \<notin> set (columns single_example)" by (simp add: single_example_def)
  note p = single_example_parsed
  have l: "map_result py_len (map (\<lambda>e. PList [e]) [PStr ''a@x.com'', PStr ''c@y.com'']) = Inr [1, 1]"
    by (simp add: py_len_def)
  from email_column_appended [OF ok fresh p l] obtain out st where
    r: "process_csv literal_eval_str single_example = Inr (out, st)" and
    c: "columns out = columns single_example @ [''email'']" and
    s: "\<forall>emails. map (\<lambda>e. PList [e]) [PStr ''a@x.com'', PStr ''c@y.com''] = map (\<lambda>e. PList [e]) emails \<longrightarrow>
              length (rows out) = length (rows single_example) \<and>
              rows out = map (\<lambda>(r, e). r @ [(''email'', e)]) (zip (rows single_example) emails)"
    by blast
  from s have "length (rows out) = length (rows single_example) \<and>
              rows out = map (\<lambda>(r, e). r @ [(''email'', e)])
                (zip (rows single_example) [PStr ''a@x.com'', PStr ''c@y.com''])"
    by blast
  with r c ok fresh p l show ?thesis by (simp add: single_example_def)
qed

text \<open>
  The claim as it stands fails on the table of two leads with one address each: the
  columns of the output are not the columns of the input with \<^verbatim>\<open>pii.Email_Array\<close>
  replaced by \<^verbatim>\<open>email\<close>.
\<close>

theorem array_column_not_replaced:
  "process_csv literal_eval_str single_example =
     Inr (\<lparr>columns = [''id'', ''pii.Email_Array'', ''email''],
           rows = [[(''id'', PInt 1), (''pii.Email_Array'', PStr ''[a@x.com]''), (''email'', PStr ''a@x.com'')],
                   [(''id'', PInt 2), (''pii.Email_Array'', PStr ''[c@y.com]''), (''email'', PStr ''c@y.com'')]]\<rparr>,
          \<lparr>rows_before = 2, rows_after = 2, emails_found = 2\<rparr>) \<and>
   [''id'', ''pii.Email_Array'', ''email'']
     \<noteq> map (rename_key ''pii.Email_Array'' ''email'') (columns single_example)"
  by code_simp

text \<open>What \<^verbatim>\<open>process_csv\<close> on the store returns is what it returns on the value of the table.\<close>

lemma process_csv_st_pure:
  assumes "df < length h" and "process_csv_st dec h df = (res, h')"
  shows "(case process_csv dec (h ! df) of
            Inl e \<Rightarrow> res = Inl e
          | Inr (out, st) \<Rightarrow> (\<exists>a. res = Inr (a, st) \<and> a < length h' \<and> h' ! a = out))"
  using assms
  unfolding process_csv_st_def process_csv_def alloc_def Let_def
  by (auto simp: nth_append raise_or_def bind_result_def split: sum.splits prod.splits)

text \<open>
  C9. \<^verbatim>\<open>process_csv\<close> leaves the caller's table as it was: after the call the store
  holds at \<open>df\<close>, and at every reference that existed before, the table it held before;
  the function only adds tables, and the table it returns is one of the new ones. This
  holds whether the call returns or raises.
\<close>

theorem caller_table_unchanged:
  assumes "df < length h" and "process_csv_st dec h df = (res, h')"
  shows "h' ! df = h ! df \<and> length h \<le> length h' \<and> (\<forall>a < length h. h' ! a = h ! a) \<and>
         (\<forall>out st. res = Inr (out, st) \<longrightarrow> length h \<le> out \<and> out < length h')"
  using assms
  unfolding process_csv_st_def alloc_def Let_def
  by (auto simp: nth_append raise_or_def split: sum.splits prod.splits)

theorem caller_table_unchanged_witness:
  "0 < length [leads_example] \<and>
   fst (process_csv_st literal_eval_str [leads_example] 0) =
     Inr (5, \<lparr>rows_before = 3, rows_after = 3, emails_found = 3\<rparr>) \<and>
   snd (process_csv_st literal_eval_str [leads_example] 0) ! 0 = leads_example \<and>
   length (snd (process_csv_st literal_eval_str [leads_example] 0)) = 6"
proof -
  have h: "0 < length [leads_example]" by simp
  have e: "process_csv_st literal_eval_str [leads_example] 0 =
     (fst (process_csv_st literal_eval_str [leads_example] 0),
      snd (process_csv_st literal_eval_str [leads_example] 0))" by simp
  have r: "fst (process_csv_st literal_eval_str [leads_example] 0) =
     Inr (5, \<lparr>rows_before = 3, rows_after = 3, emails_found = 3\<rparr>)"
    by code_simp
  have l: "length (snd (process_csv_st literal_eval_str [leads_example] 0)) = 6"
    by code_simp
  from caller_table_unchanged [OF h e] r l show ?thesis by simp
qed


text \<open>
  Claim C3 says that \<^verbatim>\<open>parse_email_array\<close> returns a sequence for every cell and
  never raises, every failure of the decoding going to the fallback, as the comment of
  the handler says too. The code differs on cells that are text. Decoding the cell
  \<^verbatim>\<open>{[]}\<close> raises a \<^verbatim>\<open>TypeError\<close> (a list cannot be put into a set); the handler
  catches \<^verbatim>\<open>ValueError\<close> and \<^verbatim>\<open>SyntaxError\<close> only, so the exception leaves the
  function, although the fallback would have returned the empty list. The same happens
  to a cell with an address in it. And decoding the cell \<^verbatim>\<open>None\<close> returns the value
  \<^verbatim>\<open>None\<close>, which the function returns as it is and which is no sequence.
\<close>

theorem decoder_error_escapes:
  "parse_email_array literal_eval_str (PStr ''{[]}'') = Inl TypeError \<and>
   findall ''{[]}'' = [] \<and>
   parse_email_array literal_eval_str (PStr (''{['' @ quoted ''a@b.com'' @ '']}'')) = Inl TypeError \<and>
   findall (''{['' @ quoted ''a@b.com'' @ '']}'') = [''a@b.com''] \<and>
   parse_email_array literal_eval_str (PStr ''None'') = Inr PNone"
  by code_simp

section \<open>The fallback scan\<close>


















end
